theory Spec2Isabelle
  imports Main
begin

section \<open>JavaScript strings\<close>

text \<open>
  A JavaScript string is modelled as a \<^typ>\<open>string\<close>: each \<^typ>\<open>char\<close> stands for one
  code unit in the range U+0000 .. U+00FF. \<open>String.prototype.trim\<close> removes white space and
  line terminators from both ends; in that range these are TAB, LF, VT, FF, CR, SPACE and
  NBSP (U+00A0).
\<close>

definition isWhiteSpace :: "char \<Rightarrow> bool" where
  "isWhiteSpace c = (of_char c \<in> {9, 10, 11, 12, 13, 32, 160 :: nat})"

definition trim :: "string \<Rightarrow> string" where
  "trim s = rev (dropWhile isWhiteSpace (rev (dropWhile isWhiteSpace s)))"

text \<open>
  \<open>String.prototype.toUpperCase\<close> belongs to the JavaScript engine, and its table reaches
  beyond what a \<^typ>\<open>char\<close> holds (the sharp s becomes two letters, y with diaeresis
  leaves the range). The code that calls it takes it as a parameter \<open>toUpperCase\<close>, so
  what is proved holds for the engine's function whatever it does. Where an example
  needs the engine's result, the example's string is ASCII, and there the engine moves
  the letters a .. z to A .. Z and leaves every other character: \<open>asciiUpperCase\<close>.
\<close>

definition asciiUpperCase_char :: "char \<Rightarrow> char" where
  "asciiUpperCase_char c =
     (let n = of_char c :: nat in if 97 \<le> n \<and> n \<le> 122 then char_of (n - 32) else c)"

definition asciiUpperCase :: "string \<Rightarrow> string" where
  "asciiUpperCase s = map asciiUpperCase_char s"

text \<open>Truthiness of a value of type \<open>string | null\<close>: \<open>null\<close> and \<open>""\<close> are falsy.\<close>

definition truthy :: "string option \<Rightarrow> bool" where
  "truthy v = (case v of None \<Rightarrow> False | Some s \<Rightarrow> s \<noteq> [])"

text \<open>\<open>Array.prototype.join\<close>: the elements in order, the separator between neighbours.\<close>

fun join :: "string \<Rightarrow> string list \<Rightarrow> string" where
  "join sep [] = []"
| "join sep [x] = x"
| "join sep (x # y # ys) = x @ sep @ join sep (y # ys)"

text \<open>
  \<open>String.prototype.split\<close> at a one-character separator: the pieces between the
  separators, in order; a string without the separator is one piece.
\<close>

fun split :: "char \<Rightarrow> string \<Rightarrow> string list" where
  "split sep [] = [[]]"
| "split sep (c # cs) =
     (if c = sep then [] # split sep cs
      else (case split sep cs of [] \<Rightarrow> [[c]] | p # ps \<Rightarrow> (c # p) # ps))"


section \<open>Recognition flow (\<open>src/ai/flows/initiate-scan-with-prompt.ts\<close>)\<close>

text \<open>
  The object handed to the flow at run time: a field that is absent is \<open>None\<close>.
  The flow's result is \<open>{ plateNumber: string }\<close>.
\<close>

record InitiateScanWithPromptInput =
  prompt :: "string option"
  photoDataUri :: "string option"

record InitiateScanWithPromptOutput =
  plateNumber :: string

datatype flow_error = InvalidInput | ServiceFailure string

text \<open>
  The file holds two revisions of the flow. Both are \<open>ai.defineFlow\<close> with an
  \<open>inputSchema\<close>, which rejects an input that does not match the schema before the body
  runs; the body awaits the prompt (the external model, the parameter \<open>llm\<close>) and returns
  its output.

  First revision: \<open>z.object({ prompt: z.string() })\<close>. The prompt is required; the schema
  has no other key, so only the prompt reaches the model.
\<close>

definition InitiateScanWithPromptInputSchema_text :: "InitiateScanWithPromptInput \<Rightarrow> bool" where
  "InitiateScanWithPromptInputSchema_text inp = (prompt inp \<noteq> None)"

definition initiateScanWithPrompt_text ::
  "(InitiateScanWithPromptInput \<Rightarrow> flow_error + InitiateScanWithPromptOutput) \<Rightarrow>
   InitiateScanWithPromptInput \<Rightarrow> flow_error + InitiateScanWithPromptOutput" where
  "initiateScanWithPrompt_text llm inp =
     (if InitiateScanWithPromptInputSchema_text inp
      then llm \<lparr>prompt = prompt inp, photoDataUri = None\<rparr>
      else Inl InvalidInput)"

text \<open>
  Second revision:
  \<open>z.object({ prompt: z.string().optional(), photoDataUri: z.string() })\<close>.
  The image is required, the hint is optional.
\<close>

definition InitiateScanWithPromptInputSchema :: "InitiateScanWithPromptInput \<Rightarrow> bool" where
  "InitiateScanWithPromptInputSchema inp = (photoDataUri inp \<noteq> None)"

definition initiateScanWithPrompt ::
  "(InitiateScanWithPromptInput \<Rightarrow> flow_error + InitiateScanWithPromptOutput) \<Rightarrow>
   InitiateScanWithPromptInput \<Rightarrow> flow_error + InitiateScanWithPromptOutput" where
  "initiateScanWithPrompt llm inp =
     (if InitiateScanWithPromptInputSchema inp then llm inp else Inl InvalidInput)"

text \<open>The claim's reading of the contract: present means the field is there.\<close>

definition image_or_hint_present :: "InitiateScanWithPromptInput \<Rightarrow> bool" where
  "image_or_hint_present inp = (photoDataUri inp \<noteq> None \<or> prompt inp \<noteq> None)"


section \<open>History log\<close>

text \<open>
  Modelled from the spec: the type \<open>ScanResult\<close> and the parent's \<open>onScan\<close> handler live in
  \<open>scanner-layout\<close>, which is not among the sources. The spec (3, 4.2, 4.3) gives a record
  an identifier, a plate number and a timestamp, and has accept promote the staged plate
  to a record with a fresh identifier and the current time, appended at the end of the
  log, with no deduplication and no merge. The identifier and the time come from the
  environment: the parameter \<open>stamp\<close>, asked with the log as it is.
\<close>

record ScanResult =
  scan_id :: string
  plateNumber :: string
  timestamp :: int

definition append_record :: "ScanResult \<Rightarrow> ScanResult list \<Rightarrow> ScanResult list" where
  "append_record r log = log @ [r]"

definition onScan_spec ::
  "(ScanResult list \<Rightarrow> string \<times> int) \<Rightarrow> string \<Rightarrow> ScanResult list \<Rightarrow> ScanResult list" where
  "onScan_spec stamp plate log =
     append_record \<lparr>scan_id = fst (stamp log), plateNumber = plate, timestamp = snd (stamp log)\<rparr> log"


section \<open>The camera scanner (\<open>src/components/camera-scanner.tsx\<close>)\<close>

datatype toast_variant = Default | Destructive

record toast =
  title :: string
  description :: string
  variant :: toast_variant

datatype js_error = Error string

text \<open>A \<open>MediaStream\<close> is the list of its tracks; a track is named by a number.\<close>

type_synonym MediaStream = "nat list"

text \<open>
  The component's four \<open>useState\<close> cells, and next to them what its handlers do to the
  world around it: the notifications raised (\<open>toasts\<close>, oldest first), the parent's log that
  \<open>onScan\<close> updates (\<open>historyLog\<close>), the recognition calls awaited and not yet settled
  (\<open>pending\<close>), the camera tracks that are capturing (\<open>liveTracks\<close>), and the cleanup that
  \<open>useEffect\<close> registered (\<open>cleanup\<close>: the value of \<open>stream\<close> that the closure holds, when
  one is registered).
\<close>

record CameraScanner =
  stream :: "MediaStream option"
  isScanning :: bool
  detectedPlate :: "string option"
  isCapturing :: bool
  toasts :: "toast list"
  historyLog :: "ScanResult list"
  pending :: "InitiateScanWithPromptInput list"
  liveTracks :: "nat list"
  cleanup :: "MediaStream option option"

text \<open>The first render: every \<open>useState\<close> cell at its initial value, nothing done yet.\<close>

definition initial :: CameraScanner where
  "initial = \<lparr>stream = None, isScanning = False, detectedPlate = None, isCapturing = False,
     toasts = [], historyLog = [], pending = [], liveTracks = [], cleanup = None\<rparr>"

text \<open>
  A handler is a closure made by a render. The state cells it reads (\<open>isCapturing\<close>,
  \<open>detectedPlate\<close>) are the constants of that render, and so is what the page shows and
  enables; its setters and its calls act on the state as it is when the handler runs. So
  a handler takes two states: \<open>r\<close>, the state that was rendered when the closure was
  made, and \<open>s\<close>, the current one. After a render the two are the same; without a render
  between two events the second handler still reads the old \<open>r\<close>.
\<close>

definition toast_call :: "toast \<Rightarrow> CameraScanner \<Rightarrow> CameraScanner" where
  "toast_call t s = s\<lparr>toasts := toasts s @ [t]\<rparr>"

subsection \<open>Camera set-up and teardown (\<open>useEffect\<close>, lines 24-53)\<close>

text \<open>
  \<open>useEffect(f, [])\<close> runs \<open>f\<close> once, after the first render. \<open>f\<close> starts \<open>setupCamera\<close>
  and returns the cleanup \<open>() => { stream?.getTracks().forEach((track) => track.stop()) }\<close>.
  The cleanup is a closure over the \<open>stream\<close> constant of the render in which the effect
  ran; with the empty dependency list the effect never runs again, so that closure is the
  one React calls at unmount.
\<close>

definition useEffect_run :: "CameraScanner \<Rightarrow> CameraScanner" where
  "useEffect_run s = s\<lparr>cleanup := Some (stream s)\<rparr>"

definition mount :: CameraScanner where
  "mount = useEffect_run initial"

text \<open>
  \<open>getUserMedia\<close> resolves with a stream whose tracks are capturing from then on;
  \<open>setupCamera\<close> stores it with \<open>setStream\<close>. When it rejects, the \<open>catch\<close> raises a
  notification.
\<close>

definition setupCamera_resolved :: "MediaStream \<Rightarrow> CameraScanner \<Rightarrow> CameraScanner" where
  "setupCamera_resolved userStream s =
     s\<lparr>stream := Some userStream, liveTracks := liveTracks s @ userStream\<rparr>"

definition setupCamera_rejected :: "CameraScanner \<Rightarrow> CameraScanner" where
  "setupCamera_rejected s =
     toast_call \<lparr>title = ''Camera Error'',
       description = ''Could not access camera. Please check permissions.'',
       variant = Destructive\<rparr> s"

text \<open>\<open>stream?.getTracks().forEach((track) => track.stop())\<close> for the stream the closure holds.\<close>

definition stop_tracks :: "MediaStream option \<Rightarrow> CameraScanner \<Rightarrow> CameraScanner" where
  "stop_tracks captured s =
     (case captured of
        None \<Rightarrow> s
      | Some tracks \<Rightarrow> s\<lparr>liveTracks := filter (\<lambda>t. t \<notin> set tracks) (liveTracks s)\<rparr>)"

definition unmount :: "CameraScanner \<Rightarrow> CameraScanner" where
  "unmount s =
     (case cleanup s of
        None \<Rightarrow> s
      | Some captured \<Rightarrow> (stop_tracks captured s)\<lparr>cleanup := None\<rparr>)"

text \<open>The tracks of the component's stream that are still capturing.\<close>

definition held_tracks :: "CameraScanner \<Rightarrow> nat list" where
  "held_tracks s =
     (case stream s of None \<Rightarrow> [] | Some tracks \<Rightarrow> filter (\<lambda>t. t \<in> set tracks) (liveTracks s))"

subsection \<open>\<open>handleScan\<close> (lines 55-103)\<close>

text \<open>
  What the handler reads from the page when it runs: whether the two refs are set,
  whether the canvas gives a 2D context, and the data URI that
  \<open>canvas.toDataURL('image/jpeg', 0.8)\<close> returns for the current frame.
\<close>

record capture_env =
  videoRef :: bool
  canvasRef :: bool
  context2d :: bool
  dataURL :: string

text \<open>The \<open>catch\<close> block and the \<open>finally\<close> block.\<close>

definition scan_catch :: "CameraScanner \<Rightarrow> CameraScanner" where
  "scan_catch s =
     toast_call \<lparr>title = ''Scan Failed'',
       description = ''An error occurred during OCR scanning.'',
       variant = Destructive\<rparr> s"

definition scan_finally :: "CameraScanner \<Rightarrow> CameraScanner" where
  "scan_finally s = s\<lparr>isScanning := False, isCapturing := False\<rparr>"

definition noPlateFound :: toast where
  "noPlateFound = \<lparr>title = ''No Plate Found'',
     description = ''Could not identify a license plate. Try a different angle or better lighting.'',
     variant = Destructive\<rparr>"

definition plateDetected :: "string \<Rightarrow> toast" where
  "plateDetected p = \<lparr>title = ''Plate Detected'', description = ''Identified: '' @ p,
     variant = Default\<rparr>"

text \<open>
  The handler up to its \<open>await\<close>: the guard, the two flags, the frame capture and the call.
  The guard reads \<open>isCapturing\<close> of the render \<open>r\<close>. A missing 2D context throws inside the
  \<open>try\<close>, so \<open>catch\<close> and \<open>finally\<close> run at once and no call is made.
\<close>

definition handleScan :: "CameraScanner \<Rightarrow> capture_env \<Rightarrow> CameraScanner \<Rightarrow> CameraScanner" where
  "handleScan r env s =
     (if isCapturing r \<or> \<not> videoRef env \<or> \<not> canvasRef env then s
      else
        let s1 = s\<lparr>isCapturing := True, isScanning := True\<rparr> in
        if \<not> context2d env then scan_finally (scan_catch s1)
        else s1\<lparr>pending := pending s1 @
               [\<lparr>prompt = Some ''Extract the license plate number from anywhere in this image.'',
                 photoDataUri = Some (dataURL env)\<rparr>]\<rparr>)"

text \<open>
  The handler from its \<open>await\<close> on, run when the call settles: \<open>Inl\<close> when the call
  rejected, \<open>Inr\<close> with the result otherwise. The settled call leaves \<open>pending\<close>. This part
  reads no state cell, only the result and the setters.
\<close>

definition handleScan_resume ::
  "js_error + InitiateScanWithPromptOutput \<Rightarrow> CameraScanner \<Rightarrow> CameraScanner" where
  "handleScan_resume outcome s =
     (let s1 = s\<lparr>pending := tl (pending s)\<rparr> in
      scan_finally
        (case outcome of
           Inl e \<Rightarrow> scan_catch s1
         | Inr result \<Rightarrow>
             if InitiateScanWithPromptOutput.plateNumber result \<noteq> [] \<and>
                length (trim (InitiateScanWithPromptOutput.plateNumber result)) > 0
             then toast_call (plateDetected (InitiateScanWithPromptOutput.plateNumber result))
                    (s1\<lparr>detectedPlate := Some (InitiateScanWithPromptOutput.plateNumber result)\<rparr>)
             else toast_call noPlateFound s1))"

subsection \<open>\<open>savePlate\<close> (lines 105-114) and the Redo button (line 167)\<close>

text \<open>
  \<open>savePlate\<close> reads \<open>detectedPlate\<close> of the render \<open>r\<close>, hands it to \<open>onScan\<close>, clears the
  cell and raises a notification. Redo is \<open>setDetectedPlate(null)\<close> and reads nothing.
\<close>

definition savePlate ::
  "(string \<Rightarrow> ScanResult list \<Rightarrow> ScanResult list) \<Rightarrow> CameraScanner \<Rightarrow> CameraScanner \<Rightarrow>
   CameraScanner" where
  "savePlate onScan r s =
     (case detectedPlate r of
        None \<Rightarrow> s
      | Some p \<Rightarrow>
          if p \<noteq> [] then
            toast_call \<lparr>title = ''Saved'', description = ''Plate '' @ p @ '' added to history.'',
                variant = Default\<rparr>
              (s\<lparr>historyLog := onScan p (historyLog s), detectedPlate := None\<rparr>)
          else s)"

definition redo :: "CameraScanner \<Rightarrow> CameraScanner" where
  "redo s = s\<lparr>detectedPlate := None\<rparr>"

subsection \<open>What the page lets the user do\<close>

text \<open>
  The result card with the Save and Redo buttons is rendered when
  \<open>detectedPlate && !isScanning\<close>; the scan button is disabled when
  \<open>isCapturing || !stream\<close>. Both are read off the rendered state \<open>r\<close>.
\<close>

definition card_shown :: "CameraScanner \<Rightarrow> bool" where
  "card_shown r = (truthy (detectedPlate r) \<and> \<not> isScanning r)"

definition scan_disabled :: "CameraScanner \<Rightarrow> bool" where
  "scan_disabled r = (isCapturing r \<or> stream r = None)"

subsection \<open>The workflow as events\<close>

text \<open>
  One event is one run of a handler (or of the rest of \<open>handleScan\<close> after its \<open>await\<close>).
  A click reaches its handler only when the rendered page \<open>r\<close> shows the button and has it
  enabled; a call can settle only when one is awaited.
\<close>

datatype event =
    ClickScan capture_env
  | Settled "js_error + InitiateScanWithPromptOutput"
  | ClickSave
  | ClickRedo

definition step ::
  "(string \<Rightarrow> ScanResult list \<Rightarrow> ScanResult list) \<Rightarrow> CameraScanner \<Rightarrow> event \<Rightarrow> CameraScanner \<Rightarrow>
   CameraScanner" where
  "step onScan r e s =
     (case e of
        ClickScan env \<Rightarrow> if scan_disabled r then s else handleScan r env s
      | Settled outcome \<Rightarrow> if pending s = [] then s else handleScan_resume outcome s
      | ClickSave \<Rightarrow> if card_shown r then savePlate onScan r s else s
      | ClickRedo \<Rightarrow> if card_shown r then redo s else s)"

text \<open>
  Two ways a list of events can run. In \<open>run\<close> the component renders before every event,
  so each handler is the closure of the state the event before left: this is what
  happens when the events arrive one task after another, as a user's clicks do. In
  \<open>run_same_render\<close> no render comes between the events, so every handler is the closure
  of the one render \<open>r\<close>: this is what happens when the events are dispatched within one
  task.
\<close>

definition run ::
  "(string \<Rightarrow> ScanResult list \<Rightarrow> ScanResult list) \<Rightarrow> event list \<Rightarrow> CameraScanner \<Rightarrow> CameraScanner" where
  "run onScan evs s = foldl (\<lambda>s e. step onScan s e s) s evs"


text \<open>
  The workflow states of the spec read off the component: a capture is in flight, or a
  result is staged, or neither. The spec's Failed state has no cell of its own in the
  component: it is the moment the handler raises a destructive notification, before
  \<open>finally\<close> clears the flags.
\<close>

datatype phase = Idle | Capturing | Staged

definition phase_of :: "CameraScanner \<Rightarrow> phase" where
  "phase_of s =
     (if isCapturing s then Capturing
      else if truthy (detectedPlate s) then Staged
      else Idle)"

text \<open>A capture cycle that ends in the user's decision on the staged plate.\<close>

datatype decision = Accept | Reject

definition cycle_events :: "capture_env \<Rightarrow> string \<times> decision \<Rightarrow> event list" where
  "cycle_events env pd =
     [ClickScan env,
      Settled (Inr \<lparr>InitiateScanWithPromptOutput.plateNumber = fst pd\<rparr>),
      (case snd pd of Accept \<Rightarrow> ClickSave | Reject \<Rightarrow> ClickRedo)]"

definition accepts :: "(string \<times> decision) list \<Rightarrow> nat" where
  "accepts ds = length (filter (\<lambda>pd. snd pd = Accept) ds)"

text \<open>The calls awaited match the in-flight flag: one when it is set, none otherwise.\<close>

definition in_flight_inv :: "CameraScanner \<Rightarrow> bool" where
  "in_flight_inv s = (length (pending s) = (if isCapturing s then 1 else 0))"


section \<open>Other revisions of \<open>handleScan\<close>\<close>

text \<open>
  The second document in \<open>src/components/scan-history.tsx\<close> is a revision of the camera
  scanner whose \<open>handleScan\<close> (lines 203-250) sends the image alone and stages
  \<open>result.plateNumber.toUpperCase()\<close>; the notification shows the plate as returned.
  The engine's \<open>toUpperCase\<close> is the first parameter of the second half.
\<close>

definition handleScan_upper ::
  "CameraScanner \<Rightarrow> capture_env \<Rightarrow> CameraScanner \<Rightarrow> CameraScanner" where
  "handleScan_upper r env s =
     (if isCapturing r \<or> \<not> videoRef env \<or> \<not> canvasRef env then s
      else
        let s1 = s\<lparr>isCapturing := True, isScanning := True\<rparr> in
        if \<not> context2d env then scan_finally (scan_catch s1)
        else s1\<lparr>pending := pending s1 @ [\<lparr>prompt = None, photoDataUri = Some (dataURL env)\<rparr>]\<rparr>)"

definition handleScan_upper_resume ::
  "(string \<Rightarrow> string) \<Rightarrow> js_error + InitiateScanWithPromptOutput \<Rightarrow> CameraScanner \<Rightarrow>
   CameraScanner" where
  "handleScan_upper_resume toUpperCase outcome s =
     (let s1 = s\<lparr>pending := tl (pending s)\<rparr> in
      scan_finally
        (case outcome of
           Inl e \<Rightarrow> scan_catch s1
         | Inr result \<Rightarrow>
             if InitiateScanWithPromptOutput.plateNumber result \<noteq> [] \<and>
                length (trim (InitiateScanWithPromptOutput.plateNumber result)) > 0
             then toast_call (plateDetected (InitiateScanWithPromptOutput.plateNumber result))
                    (s1\<lparr>detectedPlate :=
                          Some (toUpperCase (InitiateScanWithPromptOutput.plateNumber result))\<rparr>)
             else toast_call noPlateFound s1))"

text \<open>
  \<open>src/unnamed/part_001\<close> is a revision whose \<open>handleScan\<close> and \<open>savePlate\<close> are those of
  \<open>camera-scanner.tsx\<close> line for line; only the prompt text and the wording of the
  \<open>No Plate Found\<close> notification differ, so it has no definition of its own here.
\<close>

text \<open>
  \<open>src/unnamed/part_000\<close> is a revision without frame capture: \<open>handleScan\<close> (lines 50-87)
  is guarded by \<open>isCapturing\<close> alone, sends a fixed text prompt, tests the returned plate
  for truthiness only, and on a falsy plate stages \<open>mockPlates[k]\<close>, where \<open>k\<close> is
  \<open>Math.floor(Math.random() * mockPlates.length)\<close>, with no notification. An index outside
  the array reads \<open>undefined\<close>, which is falsy like \<open>null\<close>.
\<close>

definition mockPlates :: "string list" where
  "mockPlates = [''ABC-1234'', ''XYZ-9876'', ''DL-5SB-1029'', ''CA-992-PX'', ''TX-B45-920'']"

definition handleScan_prompt :: "CameraScanner \<Rightarrow> CameraScanner \<Rightarrow> CameraScanner" where
  "handleScan_prompt r s =
     (if isCapturing r then s
      else
        let s1 = s\<lparr>isCapturing := True, isScanning := True\<rparr> in
        s1\<lparr>pending := pending s1 @
             [\<lparr>prompt = Some ''Analyze the current vehicle in view and identify its license plate number.'',
               photoDataUri = None\<rparr>]\<rparr>)"

definition handleScan_prompt_resume ::
  "nat \<Rightarrow> js_error + InitiateScanWithPromptOutput \<Rightarrow> CameraScanner \<Rightarrow> CameraScanner" where
  "handleScan_prompt_resume k outcome s =
     (let s1 = s\<lparr>pending := tl (pending s)\<rparr> in
      scan_finally
        (case outcome of
           Inl e \<Rightarrow> scan_catch s1
         | Inr result \<Rightarrow>
             if InitiateScanWithPromptOutput.plateNumber result \<noteq> []
             then toast_call (plateDetected (InitiateScanWithPromptOutput.plateNumber result))
                    (s1\<lparr>detectedPlate := Some (InitiateScanWithPromptOutput.plateNumber result)\<rparr>)
             else s1\<lparr>detectedPlate :=
                       (if k < length mockPlates then Some (mockPlates ! k) else None)\<rparr>))"


section \<open>The history view (\<open>src/components/scan-history.tsx\<close>, lines 24-45)\<close>

text \<open>
  The component's three \<open>useState\<close> cells and the texts it has sent to
  \<open>summarizeScanHistory\<close> (\<open>summarize_calls\<close>, oldest first). The log is the prop \<open>history\<close>.
\<close>

record ScanHistory =
  summary :: "string option"
  isSummarizing :: bool
  isSummaryOpen :: bool
  summarize_calls :: "string list"

text \<open>
  \<open>format(new Date(h.timestamp), "yyyy-MM-dd HH:mm:ss")\<close> is date-fns, a parameter here:
  it takes the timestamp and the pattern, and is \<open>None\<close> when \<open>format\<close> throws (an invalid
  date).
\<close>

definition history_line :: "(int \<Rightarrow> string \<Rightarrow> string option) \<Rightarrow> ScanResult \<Rightarrow> string option" where
  "history_line format h =
     (case format (timestamp h) ''yyyy-MM-dd HH:mm:ss'' of
        None \<Rightarrow> None
      | Some t \<Rightarrow> Some (ScanResult.plateNumber h @ '' at '' @ t))"

definition historyStr :: "(int \<Rightarrow> string \<Rightarrow> string option) \<Rightarrow> ScanResult list \<Rightarrow> string option" where
  "historyStr format history =
     map_option (join [CHR 0x0A]) (those (map (history_line format) history))"

definition summary_catch :: "ScanHistory \<Rightarrow> ScanHistory" where
  "summary_catch s = s\<lparr>summary := Some ''Failed to generate summary. Please try again later.''\<rparr>"

definition summary_finally :: "ScanHistory \<Rightarrow> ScanHistory" where
  "summary_finally s = s\<lparr>isSummarizing := False\<rparr>"

text \<open>The handler up to its \<open>await\<close>, and the rest of it, run when the call settles.\<close>

definition handleGenerateSummary ::
  "(int \<Rightarrow> string \<Rightarrow> string option) \<Rightarrow> ScanResult list \<Rightarrow> ScanHistory \<Rightarrow> ScanHistory" where
  "handleGenerateSummary format history s =
     (if length history = 0 then s
      else
        let s1 = s\<lparr>isSummarizing := True, isSummaryOpen := True\<rparr> in
        case historyStr format history of
          None \<Rightarrow> summary_finally (summary_catch s1)
        | Some text \<Rightarrow> s1\<lparr>summarize_calls := summarize_calls s1 @ [text]\<rparr>)"

definition handleGenerateSummary_resume :: "js_error + string \<Rightarrow> ScanHistory \<Rightarrow> ScanHistory" where
  "handleGenerateSummary_resume outcome s =
     summary_finally
       (case outcome of
          Inl e \<Rightarrow> summary_catch s
        | Inr result_summary \<Rightarrow> s\<lparr>summary := Some result_summary\<rparr>)"


section \<open>Properties\<close>

subsection \<open>Strings and lists\<close>

lemma trim_Nil: "trim [] = []"
  by (simp add: trim_def)

lemma trim_nonempty: "trim p \<noteq> [] \<Longrightarrow> p \<noteq> []"
  using trim_Nil by auto

lemma tl_single: "length xs = Suc 0 \<Longrightarrow> tl xs = []"
  by (cases xs) auto

lemma split_no_sep: "sep \<notin> set x \<Longrightarrow> split sep x = [x]"
  by (induction x) auto

lemma split_append_sep: "sep \<notin> set x \<Longrightarrow> split sep (x @ sep # rest) = x # split sep rest"
  by (induction x) (auto split: list.splits)

lemma split_join:
  "xs \<noteq> [] \<Longrightarrow> \<forall>x\<in>set xs. sep \<notin> set x \<Longrightarrow> split sep (join [sep] xs) = xs"
proof (induction "[sep]" xs rule: join.induct)
  case 1
  then show ?case by simp
next
  case (2 x)
  then show ?case by (simp add: split_no_sep)
next
  case (3 x y ys)
  then show ?case by (simp add: split_append_sep)
qed

lemma those_map: "\<forall>x\<in>set xs. f x = Some (g x) \<Longrightarrow> those (map f xs) = Some (map g xs)"
  by (induction xs) auto

subsection \<open>Accepting with nothing staged\<close>

text \<open>
  C10. \<open>savePlate\<close> with no staged result (the \<open>detectedPlate\<close> its closure reads is \<open>null\<close>
  or empty) changes nothing, whatever the current state is: \<open>onScan\<close> is not called, so
  the log stays as it is, no notification is raised and every state cell keeps its value.
  \<open>savePlate\<close> reads the same in every revision of the component.
\<close>

theorem savePlate_without_staged_result:
  "\<not> truthy (detectedPlate r) \<Longrightarrow> savePlate onScan r s = s"
  by (simp add: savePlate_def truthy_def split: option.splits)

theorem savePlate_without_staged_result_witness:
  "\<not> truthy (detectedPlate (setupCamera_resolved [0] mount)) \<and>
   savePlate (onScan_spec (\<lambda>log. (''id'', 0))) (setupCamera_resolved [0] mount)
     (setupCamera_resolved [0] mount) = (setupCamera_resolved [0] mount)"
  using savePlate_without_staged_result
    [of "(setupCamera_resolved [0] mount)" "onScan_spec (\<lambda>log. (''id'', 0))" "(setupCamera_resolved [0] mount)"]
  by (simp add: setupCamera_resolved_def mount_def useEffect_run_def initial_def truthy_def)

subsection \<open>Summaries\<close>

text \<open>
  C8. For the empty log the serialization is the empty string, and
  \<open>handleGenerateSummary\<close> returns at its first line: the state is unchanged, and with it
  the list of texts sent to the summarization service, so no call is made.
\<close>

theorem empty_log_never_summarized:
  "historyStr format [] = Some [] \<and> handleGenerateSummary format [] s = s"
  by (simp add: historyStr_def handleGenerateSummary_def)

text \<open>
  C9, as the code has it. For a log whose timestamps all format, the serialization is the
  records' texts in the order of the \<open>history\<close> array, joined by newline characters; the
  text of a record is the plate, the word \<open>at\<close> between two spaces, and the timestamp
  formatted with \<open>yyyy-MM-dd HH:mm:ss\<close>. When moreover the log is not empty and no plate
  and no formatted timestamp holds a newline, splitting the serialization at the
  newlines gives exactly one line per record, in the order of the array.
\<close>

theorem historyStr_lines:
  assumes "\<forall>h\<in>set history. \<exists>t. format (timestamp h) ''yyyy-MM-dd HH:mm:ss'' = Some t"
  shows "historyStr format history =
           Some (join [CHR 0x0A]
             (map (\<lambda>h. ScanResult.plateNumber h @ '' at '' @
                        the (format (timestamp h) ''yyyy-MM-dd HH:mm:ss'')) history))
       \<and> (history \<noteq> [] \<longrightarrow>
           (\<forall>h\<in>set history. CHR 0x0A \<notin> set (ScanResult.plateNumber h) \<and>
              CHR 0x0A \<notin> set (the (format (timestamp h) ''yyyy-MM-dd HH:mm:ss''))) \<longrightarrow>
           split (CHR 0x0A)
             (join [CHR 0x0A]
               (map (\<lambda>h. ScanResult.plateNumber h @ '' at '' @
                          the (format (timestamp h) ''yyyy-MM-dd HH:mm:ss'')) history))
           = map (\<lambda>h. ScanResult.plateNumber h @ '' at '' @
                        the (format (timestamp h) ''yyyy-MM-dd HH:mm:ss'')) history)"
proof -
  let ?line = "\<lambda>h. ScanResult.plateNumber h @ '' at '' @
                 the (format (timestamp h) ''yyyy-MM-dd HH:mm:ss'')"
  have "\<forall>h\<in>set history. history_line format h = Some (?line h)"
    using assms by (auto simp: history_line_def)
  then have "those (map (history_line format) history) = Some (map ?line history)"
    by (rule those_map)
  then have ser: "historyStr format history = Some (join [CHR 0x0A] (map ?line history))"
    by (simp add: historyStr_def)
  have "split (CHR 0x0A) (join [CHR 0x0A] (map ?line history)) = map ?line history"
    if "history \<noteq> []"
      and "\<forall>h\<in>set history. CHR 0x0A \<notin> set (ScanResult.plateNumber h) \<and>
             CHR 0x0A \<notin> set (the (format (timestamp h) ''yyyy-MM-dd HH:mm:ss''))"
  proof -
    have "\<forall>x\<in>set (map ?line history). CHR 0x0A \<notin> set x"
      using that(2) by auto
    then show ?thesis
      using that(1) by (intro split_join) auto
  qed
  with ser show ?thesis by blast
qed

theorem historyStr_lines_witness:
  "(\<exists>text.
        historyStr
          (\<lambda>t p. if t = 0 then Some ''2024-01-01 10:00:00'' else Some ''2024-01-01 10:05:00'')
          [\<lparr>scan_id = ''1'', plateNumber = ''AAA-111'', timestamp = 0\<rparr>,
           \<lparr>scan_id = ''2'', plateNumber = ''BBB-222'', timestamp = 300000\<rparr>] = Some text
        \<and> split (CHR 0x0A) text =
            [''AAA-111 at 2024-01-01 10:00:00'', ''BBB-222 at 2024-01-01 10:05:00''])"
  using historyStr_lines
    [of "[\<lparr>scan_id = ''1'', plateNumber = ''AAA-111'', timestamp = 0\<rparr>,
          \<lparr>scan_id = ''2'', plateNumber = ''BBB-222'', timestamp = 300000\<rparr>]"
        "\<lambda>t p. if t = 0 then Some ''2024-01-01 10:00:00'' else Some ''2024-01-01 10:05:00''"]
  by simp

text \<open>
  C9 as stated fails. The service returns a plate in two rows, with a newline between
  them; it is staged and saved as returned, so the log holds one record, and the
  serialization of that log splits into two lines.
\<close>

theorem newline_plate_spans_two_lines:
  "historyLog (run (onScan_spec (\<lambda>log. (''id'', 0)))
      [ClickScan \<lparr>videoRef = True, canvasRef = True, context2d = True,
          dataURL = ''data:image/jpeg;base64,AAAA''\<rparr>,
       Settled (Inr \<lparr>InitiateScanWithPromptOutput.plateNumber = ''AB'' @ [CHR 0x0A] @ ''CD''\<rparr>),
       ClickSave]
      (setupCamera_resolved [0] mount))
     = [\<lparr>scan_id = ''id'', plateNumber = ''AB'' @ [CHR 0x0A] @ ''CD'', timestamp = 0\<rparr>]
   \<and> historyStr (\<lambda>t p. Some ''2024-01-01 10:00:00'')
       [\<lparr>scan_id = ''id'', plateNumber = ''AB'' @ [CHR 0x0A] @ ''CD'', timestamp = 0\<rparr>]
     = Some (''AB'' @ [CHR 0x0A] @ ''CD at 2024-01-01 10:00:00'')
   \<and> split (CHR 0x0A) (''AB'' @ [CHR 0x0A] @ ''CD at 2024-01-01 10:00:00'')
     = [''AB'', ''CD at 2024-01-01 10:00:00'']"
  by code_simp

subsection \<open>Recognition flow\<close>

text \<open>
  C7, as the code has it. A call with neither image nor hint fails validation in both
  revisions of the flow. Beyond that, what decides is the field the schema requires: the
  image flow fails exactly when the image is absent, whatever the hint, and the text flow
  fails exactly when the prompt is absent. A call that passes validation returns what the
  model returns, unchanged.
\<close>

theorem recognition_input_validation:
  "(\<not> image_or_hint_present inp \<longrightarrow>
      initiateScanWithPrompt llm inp = Inl InvalidInput \<and>
      initiateScanWithPrompt_text llm inp = Inl InvalidInput)
   \<and> (photoDataUri inp = None \<longrightarrow> initiateScanWithPrompt llm inp = Inl InvalidInput)
   \<and> (photoDataUri inp \<noteq> None \<longrightarrow> initiateScanWithPrompt llm inp = llm inp)
   \<and> (prompt inp = None \<longrightarrow> initiateScanWithPrompt_text llm inp = Inl InvalidInput)
   \<and> (prompt inp \<noteq> None \<longrightarrow>
        initiateScanWithPrompt_text llm inp = llm \<lparr>prompt = prompt inp, photoDataUri = None\<rparr>)"
  by (simp add: image_or_hint_present_def initiateScanWithPrompt_def
        initiateScanWithPrompt_text_def InitiateScanWithPromptInputSchema_def
        InitiateScanWithPromptInputSchema_text_def)

theorem recognition_input_validation_witness:
  "initiateScanWithPrompt (\<lambda>inp. Inr \<lparr>InitiateScanWithPromptOutput.plateNumber = ''ABC-123''\<rparr>)
     \<lparr>prompt = None, photoDataUri = None\<rparr> = Inl InvalidInput
   \<and> initiateScanWithPrompt_text (\<lambda>inp. Inr \<lparr>InitiateScanWithPromptOutput.plateNumber = ''ABC-123''\<rparr>)
     \<lparr>prompt = None, photoDataUri = None\<rparr> = Inl InvalidInput
   \<and> initiateScanWithPrompt (\<lambda>inp. Inr \<lparr>InitiateScanWithPromptOutput.plateNumber = ''ABC-123''\<rparr>)
     \<lparr>prompt = Some ''rear plate'', photoDataUri = Some ''data:image/jpeg;base64,AAAA''\<rparr>
       = Inr \<lparr>InitiateScanWithPromptOutput.plateNumber = ''ABC-123''\<rparr>
   \<and> initiateScanWithPrompt_text (\<lambda>inp. Inr \<lparr>InitiateScanWithPromptOutput.plateNumber = ''ABC-123''\<rparr>)
     \<lparr>prompt = Some ''rear plate'', photoDataUri = Some ''data:image/jpeg;base64,AAAA''\<rparr>
       = Inr \<lparr>InitiateScanWithPromptOutput.plateNumber = ''ABC-123''\<rparr>"
  using recognition_input_validation
          [of "\<lparr>prompt = None, photoDataUri = None\<rparr>"
              "\<lambda>inp. Inr \<lparr>InitiateScanWithPromptOutput.plateNumber = ''ABC-123''\<rparr>"]
        recognition_input_validation
          [of "\<lparr>prompt = Some ''rear plate'',
                 photoDataUri = Some ''data:image/jpeg;base64,AAAA''\<rparr>"
              "\<lambda>inp. Inr \<lparr>InitiateScanWithPromptOutput.plateNumber = ''ABC-123''\<rparr>"]
  by (simp add: image_or_hint_present_def)

text \<open>
  C7 as stated fails: a call with a hint and no image has one of the two present, and the
  image flow rejects it.
\<close>

theorem hint_only_call_rejected:
  "image_or_hint_present \<lparr>prompt = Some ''rear plate'', photoDataUri = None\<rparr> \<and>
   initiateScanWithPrompt (\<lambda>inp. Inr \<lparr>InitiateScanWithPromptOutput.plateNumber = ''ABC-123''\<rparr>)
     \<lparr>prompt = Some ''rear plate'', photoDataUri = None\<rparr> = Inl InvalidInput"
  by (simp add: image_or_hint_present_def initiateScanWithPrompt_def
        InitiateScanWithPromptInputSchema_def)

subsection \<open>Teardown\<close>

text \<open>
  C6 at a concrete run. The camera is granted a stream with one track, then the component
  unmounts: the cleanup holds the \<open>stream\<close> of the first render, which is \<open>null\<close>, so it stops
  nothing and the track is still capturing. The same when the component unmounts before
  the camera is granted.
\<close>

theorem camera_tracks_survive_unmount:
  "held_tracks (setupCamera_resolved [0] mount) = [0] \<and>
   held_tracks (unmount (setupCamera_resolved [0] mount)) = [0] \<and>
   liveTracks (unmount (setupCamera_resolved [0] mount)) = [0] \<and>
   held_tracks (setupCamera_resolved [0] (unmount mount)) = [0]"
  by (simp add: held_tracks_def unmount_def setupCamera_resolved_def mount_def useEffect_run_def
        initial_def stop_tracks_def)

subsection \<open>One capture at a time\<close>

text \<open>
  When a render comes before every event, the calls awaited match the in-flight flag,
  so at most one recognition call is awaited at any time.
\<close>

lemma in_flight_inv_step: "in_flight_inv s \<Longrightarrow> in_flight_inv (step onScan s e s)"
  by (cases e)
     (auto simp: in_flight_inv_def step_def handleScan_def handleScan_resume_def scan_finally_def
        scan_catch_def toast_call_def savePlate_def redo_def scan_disabled_def Let_def tl_single
        split: option.splits sum.splits if_splits)

lemma in_flight_inv_run: "in_flight_inv s \<Longrightarrow> in_flight_inv (run onScan evs s)"
  unfolding run_def by (induction evs arbitrary: s) (auto intro: in_flight_inv_step)

lemma in_flight_inv_ready: "in_flight_inv (setupCamera_resolved userStream mount)"
  by (simp add: in_flight_inv_def setupCamera_resolved_def mount_def useEffect_run_def
        initial_def)

lemma rendered_run_one_call:
  "length (pending (run onScan evs (setupCamera_resolved userStream mount))) \<le> 1"
proof -
  have "in_flight_inv (run onScan evs (setupCamera_resolved userStream mount))"
    by (rule in_flight_inv_run [OF in_flight_inv_ready])
  then show ?thesis
    by (simp add: in_flight_inv_def split: if_splits)
qed

lemma guard_reads_render:
  "isCapturing r \<Longrightarrow>
     handleScan r env s = s \<and> handleScan_prompt r s = s \<and> step onScan r (ClickScan env) s = s"
  by (simp add: handleScan_def handleScan_prompt_def step_def scan_disabled_def)



subsection \<open>Empty responses\<close>

text \<open>
  C1, as the code has it. When the returned plate is empty after trimming, the
  frame-capturing \<open>handleScan\<close> (and the upper-casing revision) raises the destructive
  \<open>No Plate Found\<close> notification, clears both flags, and leaves the staged result and the
  log as they were: a workflow with nothing staged is back in Idle with nothing staged.
  The text-prompt revision leaves the log alone too, but it stages a returned plate that
  is not the empty string as it is, and for the empty string it stages the mock plate at
  the index drawn.
\<close>

theorem empty_response_handling:
  assumes "trim (InitiateScanWithPromptOutput.plateNumber r) = []"
  shows "(let s' = handleScan_resume (Inr r) s in
            toasts s' = toasts s @ [noPlateFound] \<and> variant noPlateFound = Destructive \<and>
            \<not> isCapturing s' \<and> \<not> isScanning s' \<and>
            detectedPlate s' = detectedPlate s \<and> historyLog s' = historyLog s \<and>
            (\<not> truthy (detectedPlate s) \<longrightarrow> phase_of s' = Idle))
       \<and> (let s' = handleScan_upper_resume toUpperCase (Inr r) s in
            toasts s' = toasts s @ [noPlateFound] \<and>
            \<not> isCapturing s' \<and> \<not> isScanning s' \<and>
            detectedPlate s' = detectedPlate s \<and> historyLog s' = historyLog s \<and>
            (\<not> truthy (detectedPlate s) \<longrightarrow> phase_of s' = Idle))
       \<and> (let s' = handleScan_prompt_resume k (Inr r) s in
            historyLog s' = historyLog s \<and>
            detectedPlate s' =
              (if InitiateScanWithPromptOutput.plateNumber r \<noteq> []
               then Some (InitiateScanWithPromptOutput.plateNumber r)
               else if k < length mockPlates then Some (mockPlates ! k) else None))"
  using assms
  by (simp add: handleScan_resume_def handleScan_upper_resume_def handleScan_prompt_resume_def
      scan_finally_def toast_call_def noPlateFound_def phase_of_def Let_def)

theorem empty_response_handling_witness:
  "trim (InitiateScanWithPromptOutput.plateNumber \<lparr>InitiateScanWithPromptOutput.plateNumber = ''  ''\<rparr>) = []
   \<and> detectedPlate (handleScan_resume (Inr \<lparr>InitiateScanWithPromptOutput.plateNumber = ''  ''\<rparr>)
        (handleScan (setupCamera_resolved [0] mount)
        \<lparr>videoRef = True, canvasRef = True, context2d = True,
          dataURL = ''data:image/jpeg;base64,AAAA''\<rparr>
        (setupCamera_resolved [0] mount))) = None
   \<and> phase_of (handleScan_resume (Inr \<lparr>InitiateScanWithPromptOutput.plateNumber = ''  ''\<rparr>)
        (handleScan (setupCamera_resolved [0] mount)
        \<lparr>videoRef = True, canvasRef = True, context2d = True,
          dataURL = ''data:image/jpeg;base64,AAAA''\<rparr>
        (setupCamera_resolved [0] mount))) = Idle
   \<and> historyLog (handleScan_resume (Inr \<lparr>InitiateScanWithPromptOutput.plateNumber = ''  ''\<rparr>)
        (handleScan (setupCamera_resolved [0] mount)
        \<lparr>videoRef = True, canvasRef = True, context2d = True,
          dataURL = ''data:image/jpeg;base64,AAAA''\<rparr>
        (setupCamera_resolved [0] mount))) = []
   \<and> toasts (handleScan_resume (Inr \<lparr>InitiateScanWithPromptOutput.plateNumber = ''  ''\<rparr>)
        (handleScan (setupCamera_resolved [0] mount)
        \<lparr>videoRef = True, canvasRef = True, context2d = True,
          dataURL = ''data:image/jpeg;base64,AAAA''\<rparr>
        (setupCamera_resolved [0] mount))) = [noPlateFound]
   \<and> detectedPlate (handleScan_upper_resume asciiUpperCase (Inr \<lparr>InitiateScanWithPromptOutput.plateNumber = ''  ''\<rparr>)
        (handleScan (setupCamera_resolved [0] mount)
        \<lparr>videoRef = True, canvasRef = True, context2d = True,
          dataURL = ''data:image/jpeg;base64,AAAA''\<rparr>
        (setupCamera_resolved [0] mount))) = None
   \<and> detectedPlate (handleScan_prompt_resume 0 (Inr \<lparr>InitiateScanWithPromptOutput.plateNumber = ''  ''\<rparr>)
        (handleScan_prompt (setupCamera_resolved [0] mount) (setupCamera_resolved [0] mount))) = Some ''  ''"
  using empty_response_handling [of "\<lparr>InitiateScanWithPromptOutput.plateNumber = ''  ''\<rparr>"
      "handleScan (setupCamera_resolved [0] mount)
        \<lparr>videoRef = True, canvasRef = True, context2d = True,
          dataURL = ''data:image/jpeg;base64,AAAA''\<rparr>
        (setupCamera_resolved [0] mount)" asciiUpperCase 0]
    empty_response_handling [of "\<lparr>InitiateScanWithPromptOutput.plateNumber = ''  ''\<rparr>"
      "handleScan_prompt (setupCamera_resolved [0] mount) (setupCamera_resolved [0] mount)" asciiUpperCase 0]
  by (simp add: trim_def isWhiteSpace_def handleScan_def setupCamera_resolved_def mount_def
       useEffect_run_def initial_def truthy_def Let_def)

text \<open>
  C1 as stated fails in the text-prompt revision: the camera is ready, the response is
  the empty string, and a plate that the service never returned is staged.
\<close>

theorem empty_response_stages_mock_plate:
  "detectedPlate (handleScan_prompt_resume 0 (Inr \<lparr>InitiateScanWithPromptOutput.plateNumber = ''''\<rparr>)
      (handleScan_prompt (setupCamera_resolved [0] mount) (setupCamera_resolved [0] mount))) = Some ''ABC-1234''
   \<and> phase_of (handleScan_prompt_resume 0 (Inr \<lparr>InitiateScanWithPromptOutput.plateNumber = ''''\<rparr>)
      (handleScan_prompt (setupCamera_resolved [0] mount) (setupCamera_resolved [0] mount))) = Staged"
  by (simp add: handleScan_prompt_resume_def handleScan_prompt_def setupCamera_resolved_def
      mount_def useEffect_run_def initial_def scan_finally_def mockPlates_def phase_of_def
      truthy_def)

subsection \<open>What is staged\<close>

text \<open>
  C4, as the code has it. A returned plate that is not empty after trimming is staged
  untrimmed: the component in \<open>camera-scanner.tsx\<close> stages the returned string as it is,
  and the revision in \<open>scan-history.tsx\<close> stages what \<open>toUpperCase\<close> makes of the whole
  returned string, surrounding white space included.
\<close>

theorem staged_plate_not_trimmed:
  assumes "trim (InitiateScanWithPromptOutput.plateNumber r) \<noteq> []"
  shows "detectedPlate (handleScan_resume (Inr r) s)
           = Some (InitiateScanWithPromptOutput.plateNumber r)
     \<and> detectedPlate (handleScan_upper_resume toUpperCase (Inr r) s)
           = Some (toUpperCase (InitiateScanWithPromptOutput.plateNumber r))"
proof -
  from assms have "InitiateScanWithPromptOutput.plateNumber r \<noteq> []"
    by (rule trim_nonempty)
  with assms show ?thesis
    by (simp add: handleScan_resume_def handleScan_upper_resume_def scan_finally_def
         toast_call_def Let_def)
qed

theorem staged_plate_not_trimmed_witness:
  "trim (InitiateScanWithPromptOutput.plateNumber \<lparr>InitiateScanWithPromptOutput.plateNumber = '' abc-123 ''\<rparr>) \<noteq> []
   \<and> detectedPlate (handleScan_resume (Inr \<lparr>InitiateScanWithPromptOutput.plateNumber = '' abc-123 ''\<rparr>)
        (handleScan (setupCamera_resolved [0] mount)
        \<lparr>videoRef = True, canvasRef = True, context2d = True,
          dataURL = ''data:image/jpeg;base64,AAAA''\<rparr>
        (setupCamera_resolved [0] mount)))
       = Some '' abc-123 ''
   \<and> detectedPlate (handleScan_upper_resume asciiUpperCase (Inr \<lparr>InitiateScanWithPromptOutput.plateNumber = '' abc-123 ''\<rparr>)
        (handleScan (setupCamera_resolved [0] mount)
        \<lparr>videoRef = True, canvasRef = True, context2d = True,
          dataURL = ''data:image/jpeg;base64,AAAA''\<rparr>
        (setupCamera_resolved [0] mount)))
       = Some (asciiUpperCase '' abc-123 '')"
  using staged_plate_not_trimmed [of "\<lparr>InitiateScanWithPromptOutput.plateNumber = '' abc-123 ''\<rparr>"
      "handleScan (setupCamera_resolved [0] mount)
        \<lparr>videoRef = True, canvasRef = True, context2d = True,
          dataURL = ''data:image/jpeg;base64,AAAA''\<rparr>
        (setupCamera_resolved [0] mount)" asciiUpperCase]
  by (simp add: trim_def isWhiteSpace_def)

text \<open>
  C4 as stated fails: the response \<open>" abc-123 "\<close> is staged as it came by one component and
  as \<open>" ABC-123 "\<close> by the other, never as \<open>"ABC-123"\<close>.
\<close>

theorem staged_plate_keeps_whitespace:
  "detectedPlate (handleScan_resume (Inr \<lparr>InitiateScanWithPromptOutput.plateNumber = '' abc-123 ''\<rparr>)
      (handleScan (setupCamera_resolved [0] mount)
        \<lparr>videoRef = True, canvasRef = True, context2d = True,
          dataURL = ''data:image/jpeg;base64,AAAA''\<rparr>
        (setupCamera_resolved [0] mount)))
     = Some '' abc-123 ''
   \<and> detectedPlate (handleScan_upper_resume asciiUpperCase (Inr \<lparr>InitiateScanWithPromptOutput.plateNumber = '' abc-123 ''\<rparr>)
      (handleScan_upper (setupCamera_resolved [0] mount)
        \<lparr>videoRef = True, canvasRef = True, context2d = True,
          dataURL = ''data:image/jpeg;base64,AAAA''\<rparr>
        (setupCamera_resolved [0] mount)))
     = Some '' ABC-123 ''
   \<and> asciiUpperCase (trim '' abc-123 '') = ''ABC-123''"
  by code_simp

subsection \<open>Accept and reject\<close>

lemma run_append: "run onScan (xs @ ys) s = run onScan ys (run onScan xs s)"
  by (simp add: run_def)

lemma cycle_run:
  assumes "stream s \<noteq> None" "\<not> isCapturing s" "pending s = []"
    and "videoRef env" "canvasRef env" "context2d env"
    and "trim (fst pd) \<noteq> []"
  shows "stream (run onScan (cycle_events env pd) s) = stream s
       \<and> \<not> isCapturing (run onScan (cycle_events env pd) s)
       \<and> pending (run onScan (cycle_events env pd) s) = []
       \<and> detectedPlate (run onScan (cycle_events env pd) s) = None
       \<and> historyLog (run onScan (cycle_events env pd) s) =
           (if snd pd = Accept then onScan (fst pd) (historyLog s) else historyLog s)"
proof -
  from assms(7) have ne: "fst pd \<noteq> []" by (rule trim_nonempty)
  define s1 where "s1 = step onScan s (ClickScan env) s"
  define s2 where
    "s2 = step onScan s1
            (Settled (Inr \<lparr>InitiateScanWithPromptOutput.plateNumber = fst pd\<rparr>)) s1"
  have s1: "stream s1 = stream s" "isCapturing s1" "pending s1 \<noteq> []" "tl (pending s1) = []"
    "historyLog s1 = historyLog s"
    using assms(1-6)
    by (simp_all add: s1_def step_def scan_disabled_def handleScan_def Let_def)
  have s2: "stream s2 = stream s" "\<not> isCapturing s2" "\<not> isScanning s2" "pending s2 = []"
    "detectedPlate s2 = Some (fst pd)" "historyLog s2 = historyLog s"
    using s1 assms(7) ne
    by (simp_all add: s2_def step_def handleScan_resume_def scan_finally_def toast_call_def Let_def)
  have shown: "card_shown s2"
    using s2 ne by (simp add: card_shown_def truthy_def)
  have run: "run onScan (cycle_events env pd) s =
      step onScan s2 (case snd pd of Accept \<Rightarrow> ClickSave | Reject \<Rightarrow> ClickRedo) s2"
    by (simp add: run_def cycle_events_def s1_def s2_def)
  show ?thesis
  proof (cases "snd pd")
    case Accept
    then show ?thesis
      using run s2 shown ne by (simp add: step_def savePlate_def toast_call_def)
  next
    case Reject
    then show ?thesis
      using run s2 shown by (simp add: step_def redo_def)
  qed
qed

lemma length_onScan_spec: "length (onScan_spec stamp p log) = Suc (length log)"
  by (simp add: onScan_spec_def append_record_def)

lemma run_cycles:
  assumes "videoRef env" "canvasRef env" "context2d env"
  shows "stream s \<noteq> None \<Longrightarrow> \<not> isCapturing s \<Longrightarrow> pending s = [] \<Longrightarrow>
         \<forall>pd\<in>set ds. trim (fst pd) \<noteq> [] \<Longrightarrow>
         length (historyLog (run (onScan_spec stamp) (concat (map (cycle_events env) ds)) s))
           = length (historyLog s) + accepts ds"
proof (induction ds arbitrary: s)
  case Nil
  then show ?case by (simp add: run_def accepts_def)
next
  case (Cons pd ds)
  let ?s1 = "run (onScan_spec stamp) (cycle_events env pd) s"
  have pd: "trim (fst pd) \<noteq> []" using Cons.prems(4) by simp
  note c = cycle_run [OF Cons.prems(1-3) assms pd, of "onScan_spec stamp"]
  have s1: "stream ?s1 \<noteq> None" "\<not> isCapturing ?s1" "pending ?s1 = []"
    using c Cons.prems(1) by simp_all
  have rest: "\<forall>pd\<in>set ds. trim (fst pd) \<noteq> []" using Cons.prems(4) by simp
  have "length (historyLog (run (onScan_spec stamp) (concat (map (cycle_events env) ds)) ?s1))
          = length (historyLog ?s1) + accepts ds"
    by (rule Cons.IH [OF s1 rest])
  moreover have "length (historyLog ?s1) = length (historyLog s) + (if snd pd = Accept then 1 else 0)"
    using c by (simp add: length_onScan_spec)
  ultimately show ?case
    by (simp add: run_append accepts_def)
qed

text \<open>
  C3. A session is a list of capture cycles, each ending in the user's decision on the
  plate staged by that cycle: the scan button is clicked, the call settles with a plate
  that is not empty after trimming, and Save or Redo is clicked, with a render before
  each of the three. From the moment the camera is ready, with the log empty, the length
  of the log after the session is the number of accepts in it, when \<open>onScan\<close> appends one
  record as the spec describes. Redo never changes the log, whatever was rendered.
\<close>

theorem history_length_counts_accepts:
  assumes "videoRef env" "canvasRef env" "context2d env"
    and "\<forall>pd\<in>set ds. trim (fst pd) \<noteq> []"
  shows "length (historyLog (run (onScan_spec stamp) (concat (map (cycle_events env) ds))
                   (setupCamera_resolved userStream mount))) = accepts ds
       \<and> (\<forall>r s. historyLog (step (onScan_spec stamp) r ClickRedo s) = historyLog s)
       \<and> (\<forall>s. historyLog (redo s) = historyLog s)"
proof -
  let ?s0 = "setupCamera_resolved userStream mount"
  have s0: "stream ?s0 \<noteq> None" "\<not> isCapturing ?s0" "pending ?s0 = []" "historyLog ?s0 = []"
    by (simp_all add: setupCamera_resolved_def mount_def useEffect_run_def initial_def)
  have "length (historyLog (run (onScan_spec stamp) (concat (map (cycle_events env) ds)) ?s0))
          = length (historyLog ?s0) + accepts ds"
    by (rule run_cycles [OF assms(1-3) s0(1-3) assms(4)])
  then show ?thesis
    by (simp add: s0 step_def redo_def)
qed

theorem history_length_counts_accepts_witness:
  "videoRef \<lparr>videoRef = True, canvasRef = True, context2d = True,
          dataURL = ''data:image/jpeg;base64,AAAA''\<rparr>
   \<and> canvasRef \<lparr>videoRef = True, canvasRef = True, context2d = True,
          dataURL = ''data:image/jpeg;base64,AAAA''\<rparr>
   \<and> context2d \<lparr>videoRef = True, canvasRef = True, context2d = True,
          dataURL = ''data:image/jpeg;base64,AAAA''\<rparr>
   \<and> length (historyLog (run (onScan_spec (\<lambda>log. (''id'', int (length log))))
        (concat (map (cycle_events \<lparr>videoRef = True, canvasRef = True, context2d = True,
          dataURL = ''data:image/jpeg;base64,AAAA''\<rparr>)
           [(''AAA-111'', Accept), (''BBB-222'', Reject), (''CCC-333'', Accept)]))
        (setupCamera_resolved [0] mount))) = 2"
  using history_length_counts_accepts [of "\<lparr>videoRef = True, canvasRef = True, context2d = True,
          dataURL = ''data:image/jpeg;base64,AAAA''\<rparr>"
      "[(''AAA-111'', Accept), (''BBB-222'', Reject), (''CCC-333'', Accept)]"
      "\<lambda>log. (''id'', int (length log))" "[0]"]
  by (simp add: trim_def isWhiteSpace_def accepts_def)

subsection \<open>A new capture over a staged result\<close>

text \<open>
  C5, as the code has it. With a result staged, triggering a capture does not clear
  \<open>detectedPlate\<close>, whichever render the handler came from; while the capture is in flight
  the result card is hidden. A response that is not empty after trimming replaces the
  staged plate by the new one; an empty response or an error leaves the earlier plate
  staged.
\<close>

theorem new_capture_keeps_staged_result:
  assumes "detectedPlate s = Some p"
  shows "detectedPlate (handleScan r env s) = Some p
     \<and> (\<not> isCapturing r \<and> videoRef env \<and> canvasRef env \<and> context2d env
          \<longrightarrow> \<not> card_shown (handleScan r env s))
     \<and> (trim q \<noteq> [] \<longrightarrow>
          detectedPlate (handleScan_resume (Inr \<lparr>InitiateScanWithPromptOutput.plateNumber = q\<rparr>)
            (handleScan r env s)) = Some q)
     \<and> (trim q = [] \<longrightarrow>
          detectedPlate (handleScan_resume (Inr \<lparr>InitiateScanWithPromptOutput.plateNumber = q\<rparr>)
            (handleScan r env s)) = Some p)
     \<and> detectedPlate (handleScan_resume (Inl e) (handleScan r env s)) = Some p"
proof -
  have a: "detectedPlate (handleScan r env s) = Some p"
    using assms by (simp add: handleScan_def scan_finally_def scan_catch_def toast_call_def Let_def)
  have b: "\<not> isCapturing r \<and> videoRef env \<and> canvasRef env \<and> context2d env
          \<longrightarrow> \<not> card_shown (handleScan r env s)"
    by (simp add: handleScan_def card_shown_def Let_def)
  have c: "trim q \<noteq> [] \<longrightarrow>
          detectedPlate (handleScan_resume (Inr \<lparr>InitiateScanWithPromptOutput.plateNumber = q\<rparr>)
            (handleScan r env s)) = Some q"
    using trim_nonempty [of q]
    by (auto simp add: handleScan_resume_def scan_finally_def toast_call_def Let_def)
  have d: "trim q = [] \<longrightarrow>
          detectedPlate (handleScan_resume (Inr \<lparr>InitiateScanWithPromptOutput.plateNumber = q\<rparr>)
            (handleScan r env s)) = Some p"
    using a by (simp add: handleScan_resume_def scan_finally_def toast_call_def Let_def)
  have e: "detectedPlate (handleScan_resume (Inl e) (handleScan r env s)) = Some p"
    using a by (simp add: handleScan_resume_def scan_finally_def scan_catch_def toast_call_def Let_def)
  from a b c d e show ?thesis by blast
qed

theorem new_capture_keeps_staged_result_witness:
  "detectedPlate (handleScan_resume (Inr \<lparr>InitiateScanWithPromptOutput.plateNumber = ''ABC-123''\<rparr>)
          (handleScan (setupCamera_resolved [0] mount)
        \<lparr>videoRef = True, canvasRef = True, context2d = True,
          dataURL = ''data:image/jpeg;base64,AAAA''\<rparr>
        (setupCamera_resolved [0] mount))) = Some ''ABC-123''
   \<and> \<not> card_shown (handleScan (handleScan_resume (Inr \<lparr>InitiateScanWithPromptOutput.plateNumber = ''ABC-123''\<rparr>)
          (handleScan (setupCamera_resolved [0] mount)
        \<lparr>videoRef = True, canvasRef = True, context2d = True,
          dataURL = ''data:image/jpeg;base64,AAAA''\<rparr>
        (setupCamera_resolved [0] mount)))
        \<lparr>videoRef = True, canvasRef = True, context2d = True,
          dataURL = ''data:image/jpeg;base64,BBBB''\<rparr>
        (handleScan_resume (Inr \<lparr>InitiateScanWithPromptOutput.plateNumber = ''ABC-123''\<rparr>)
          (handleScan (setupCamera_resolved [0] mount)
        \<lparr>videoRef = True, canvasRef = True, context2d = True,
          dataURL = ''data:image/jpeg;base64,AAAA''\<rparr>
        (setupCamera_resolved [0] mount))))
   \<and> detectedPlate (handleScan_resume (Inr \<lparr>InitiateScanWithPromptOutput.plateNumber = ''XYZ-987''\<rparr>)
       (handleScan (handleScan_resume (Inr \<lparr>InitiateScanWithPromptOutput.plateNumber = ''ABC-123''\<rparr>)
          (handleScan (setupCamera_resolved [0] mount)
        \<lparr>videoRef = True, canvasRef = True, context2d = True,
          dataURL = ''data:image/jpeg;base64,AAAA''\<rparr>
        (setupCamera_resolved [0] mount)))
        \<lparr>videoRef = True, canvasRef = True, context2d = True,
          dataURL = ''data:image/jpeg;base64,BBBB''\<rparr>
        (handleScan_resume (Inr \<lparr>InitiateScanWithPromptOutput.plateNumber = ''ABC-123''\<rparr>)
          (handleScan (setupCamera_resolved [0] mount)
        \<lparr>videoRef = True, canvasRef = True, context2d = True,
          dataURL = ''data:image/jpeg;base64,AAAA''\<rparr>
        (setupCamera_resolved [0] mount))))) = Some ''XYZ-987''
   \<and> detectedPlate (handleScan_resume (Inr \<lparr>InitiateScanWithPromptOutput.plateNumber = ''  ''\<rparr>)
       (handleScan (handleScan_resume (Inr \<lparr>InitiateScanWithPromptOutput.plateNumber = ''ABC-123''\<rparr>)
          (handleScan (setupCamera_resolved [0] mount)
        \<lparr>videoRef = True, canvasRef = True, context2d = True,
          dataURL = ''data:image/jpeg;base64,AAAA''\<rparr>
        (setupCamera_resolved [0] mount)))
        \<lparr>videoRef = True, canvasRef = True, context2d = True,
          dataURL = ''data:image/jpeg;base64,BBBB''\<rparr>
        (handleScan_resume (Inr \<lparr>InitiateScanWithPromptOutput.plateNumber = ''ABC-123''\<rparr>)
          (handleScan (setupCamera_resolved [0] mount)
        \<lparr>videoRef = True, canvasRef = True, context2d = True,
          dataURL = ''data:image/jpeg;base64,AAAA''\<rparr>
        (setupCamera_resolved [0] mount))))) = Some ''ABC-123''
   \<and> detectedPlate (handleScan_resume (Inl (Error ''network''))
       (handleScan (handleScan_resume (Inr \<lparr>InitiateScanWithPromptOutput.plateNumber = ''ABC-123''\<rparr>)
          (handleScan (setupCamera_resolved [0] mount)
        \<lparr>videoRef = True, canvasRef = True, context2d = True,
          dataURL = ''data:image/jpeg;base64,AAAA''\<rparr>
        (setupCamera_resolved [0] mount)))
        \<lparr>videoRef = True, canvasRef = True, context2d = True,
          dataURL = ''data:image/jpeg;base64,BBBB''\<rparr>
        (handleScan_resume (Inr \<lparr>InitiateScanWithPromptOutput.plateNumber = ''ABC-123''\<rparr>)
          (handleScan (setupCamera_resolved [0] mount)
        \<lparr>videoRef = True, canvasRef = True, context2d = True,
          dataURL = ''data:image/jpeg;base64,AAAA''\<rparr>
        (setupCamera_resolved [0] mount))))) = Some ''ABC-123''"
  using new_capture_keeps_staged_result [of "(handleScan_resume (Inr \<lparr>InitiateScanWithPromptOutput.plateNumber = ''ABC-123''\<rparr>)
          (handleScan (setupCamera_resolved [0] mount)
        \<lparr>videoRef = True, canvasRef = True, context2d = True,
          dataURL = ''data:image/jpeg;base64,AAAA''\<rparr>
        (setupCamera_resolved [0] mount)))" "''ABC-123''"
          "(handleScan_resume (Inr \<lparr>InitiateScanWithPromptOutput.plateNumber = ''ABC-123''\<rparr>)
          (handleScan (setupCamera_resolved [0] mount)
        \<lparr>videoRef = True, canvasRef = True, context2d = True,
          dataURL = ''data:image/jpeg;base64,AAAA''\<rparr>
        (setupCamera_resolved [0] mount)))" "\<lparr>videoRef = True, canvasRef = True, context2d = True,
          dataURL = ''data:image/jpeg;base64,BBBB''\<rparr>" "''XYZ-987''" "Error ''network''"]
    new_capture_keeps_staged_result [of "(handleScan_resume (Inr \<lparr>InitiateScanWithPromptOutput.plateNumber = ''ABC-123''\<rparr>)
          (handleScan (setupCamera_resolved [0] mount)
        \<lparr>videoRef = True, canvasRef = True, context2d = True,
          dataURL = ''data:image/jpeg;base64,AAAA''\<rparr>
        (setupCamera_resolved [0] mount)))" "''ABC-123''"
          "(handleScan_resume (Inr \<lparr>InitiateScanWithPromptOutput.plateNumber = ''ABC-123''\<rparr>)
          (handleScan (setupCamera_resolved [0] mount)
        \<lparr>videoRef = True, canvasRef = True, context2d = True,
          dataURL = ''data:image/jpeg;base64,AAAA''\<rparr>
        (setupCamera_resolved [0] mount)))" "\<lparr>videoRef = True, canvasRef = True, context2d = True,
          dataURL = ''data:image/jpeg;base64,BBBB''\<rparr>" "''  ''" "Error ''network''"]
  by (simp add: trim_def isWhiteSpace_def handleScan_resume_def handleScan_def scan_finally_def
        toast_call_def setupCamera_resolved_def mount_def useEffect_run_def initial_def Let_def)

text \<open>
  C5 as stated fails: a plate is staged, a second capture returns the empty string (or
  fails), and the first plate is still staged afterwards.
\<close>

theorem staged_result_survives_failed_capture:
  "card_shown (run (onScan_spec (\<lambda>log. (''id'', 0)))
      [ClickScan \<lparr>videoRef = True, canvasRef = True, context2d = True,
          dataURL = ''data:image/jpeg;base64,AAAA''\<rparr>,
       Settled (Inr \<lparr>InitiateScanWithPromptOutput.plateNumber = ''ABC-123''\<rparr>)]
      (setupCamera_resolved [0] mount))
   \<and> detectedPlate (run (onScan_spec (\<lambda>log. (''id'', 0)))
      [ClickScan \<lparr>videoRef = True, canvasRef = True, context2d = True,
          dataURL = ''data:image/jpeg;base64,AAAA''\<rparr>,
       Settled (Inr \<lparr>InitiateScanWithPromptOutput.plateNumber = ''ABC-123''\<rparr>),
       ClickScan \<lparr>videoRef = True, canvasRef = True, context2d = True,
          dataURL = ''data:image/jpeg;base64,BBBB''\<rparr>,
       Settled (Inr \<lparr>InitiateScanWithPromptOutput.plateNumber = ''''\<rparr>)]
      (setupCamera_resolved [0] mount)) = Some ''ABC-123''
   \<and> detectedPlate (run (onScan_spec (\<lambda>log. (''id'', 0)))
      [ClickScan \<lparr>videoRef = True, canvasRef = True, context2d = True,
          dataURL = ''data:image/jpeg;base64,AAAA''\<rparr>,
       Settled (Inr \<lparr>InitiateScanWithPromptOutput.plateNumber = ''ABC-123''\<rparr>),
       ClickScan \<lparr>videoRef = True, canvasRef = True, context2d = True,
          dataURL = ''data:image/jpeg;base64,BBBB''\<rparr>,
       Settled (Inl (Error ''network''))]
      (setupCamera_resolved [0] mount)) = Some ''ABC-123''"
  by code_simp

end
